theory Spec2Isabelle
  imports Complex_Main
begin

section \<open>The value animation engine of widgeon (utils/animations.py)\<close>

text \<open>
  The module animates a vector of values toward a target vector.  Its numbers are
  IEEE doubles; here they are real numbers, so rounding, overflow and the propagation
  of inf and nan are outside the model.  The one rounding that decides a property, that
  of the quotient by which the solver lands on its target, is given separately as
  \<open>landing_rate_double\<close>.  Wherever the source would leave the reals the model stops
  with a \<open>failure\<close>:

  \<^item> \<open>ZeroDivisionError\<close>: a division of Python numbers by zero, which raises;
  \<^item> \<open>ValueError\<close>: \<open>math.log\<close> of a non-positive number, a negative length given
    to \<open>np.zeros\<close>, or numpy operands whose shapes do not fit;
  \<^item> \<open>IndexError\<close>: an index outside an array;
  \<^item> \<open>NonFinite\<close>: a float operation by which numpy produces inf or nan (a division
    by zero, a power of zero with a negative exponent, a fractional power of a negative
    number).  numpy warns and goes on; a division of this kind whose numerator is a
    plain Python number raises ZeroDivisionError instead.  In both cases the run has no
    counterpart in the reals and the model ends there.

  An exception leaves the object in whatever state the statements before it produced;
  that state is not modelled, a failure carries no state.
\<close>

datatype failure = ZeroDivisionError | ValueError | IndexError | NonFinite

subsection \<open>Python and numpy primitives\<close>

text \<open>\<open>math.log(x)\<close>.\<close>

definition py_log :: "real \<Rightarrow> failure + real" where
  "py_log x = (if 0 < x then Inr (ln x) else Inl ValueError)"

text \<open>\<open>a / b\<close> where both operands are Python numbers.\<close>

definition py_div :: "real \<Rightarrow> real \<Rightarrow> failure + real" where
  "py_div a b = (if b = 0 then Inl ZeroDivisionError else Inr (a / b))"

text \<open>\<open>a / b\<close> where the numerator may be a numpy scalar.\<close>

definition np_div :: "real \<Rightarrow> real \<Rightarrow> failure + real" where
  "np_div a b = (if b = 0 then Inl NonFinite else Inr (a / b))"

text \<open>
  \<open>np.power(x, y)\<close> on doubles: a positive base is the real power; zero to a positive
  power is 0, to the power 0 it is 1, to a negative power inf; a negative base has a
  value for an integral exponent only, and is nan otherwise.
\<close>

definition np_power :: "real \<Rightarrow> real \<Rightarrow> failure + real" where
  "np_power x y =
     (if 0 < x then Inr (x powr y)
      else if x = 0 then (if 0 < y then Inr 0 else if y = 0 then Inr 1 else Inl NonFinite)
      else if y = of_int \<lfloor>y\<rfloor> then Inr (x powi \<lfloor>y\<rfloor>)
      else Inl NonFinite)"

text \<open>
  One-dimensional arrays are lists.  An elementwise operation of two arrays follows
  numpy's broadcasting: equal lengths go pointwise, an array of length one is
  stretched, anything else is a ValueError.
\<close>

definition np_zip :: "(real \<Rightarrow> real \<Rightarrow> real) \<Rightarrow> real list \<Rightarrow> real list \<Rightarrow> failure + real list" where
  "np_zip f xs ys =
     (if length xs = length ys then Inr (map2 f xs ys)
      else if length xs = 1 then Inr (map (f (hd xs)) ys)
      else if length ys = 1 then Inr (map (\<lambda>x. f x (hd ys)) xs)
      else Inl ValueError)"

text \<open>\<open>a.dot(b)\<close> of one-dimensional arrays: the lengths must agree.\<close>

definition dot :: "real list \<Rightarrow> real list \<Rightarrow> failure + real" where
  "dot xs ys =
     (if length xs = length ys then Inr (sum_list (map2 (*) xs ys)) else Inl ValueError)"

text \<open>An array divided by a scalar: every component of a non-empty array is affected.\<close>

definition np_div_scalar :: "real list \<Rightarrow> real \<Rightarrow> failure + real list" where
  "np_div_scalar xs d =
     (if d = 0 \<and> xs \<noteq> [] then Inl NonFinite else Inr (map (\<lambda>x. x / d) xs))"

text \<open>\<open>np.zeros(n)\<close>.\<close>

definition np_zeros :: "nat \<Rightarrow> real list" where
  "np_zeros n = replicate n 0"

text \<open>An integer index into an array of length \<open>n\<close>; negative indices count from the end.\<close>

definition np_index :: "nat \<Rightarrow> int \<Rightarrow> failure + nat" where
  "np_index n i =
     (if 0 \<le> i \<and> i < int n then Inr (nat i)
      else if - int n \<le> i \<and> i < 0 then Inr (nat (int n + i))
      else Inl IndexError)"

subsection \<open>The scalar rate solver\<close>

text \<open>\<open>moving_toward(value, change_rate, drag)\<close>: \<open>value - change_rate / math.log(drag)\<close>.\<close>

definition moving_toward :: "real \<Rightarrow> real \<Rightarrow> real \<Rightarrow> failure + real" where
  "moving_toward value change_rate drag =
     (case py_log drag of
        Inl e \<Rightarrow> Inl e
      | Inr l \<Rightarrow> (case np_div change_rate l of Inl e \<Rightarrow> Inl e | Inr q \<Rightarrow> Inr (value - q)))"

text \<open>
  \<open>_animate_value\<close>.  The approach branch is the one taken when the projection is
  short of \<open>target - 0.01\<close>; the other branch coasts.  \<open>1 / acceleration_modifier\<close>
  divides the Python integer 1 by a tuning parameter, a Python number.  Where the source
  calls \<open>math.log(drag)\<close> and \<open>drag**delta_time\<close> after \<open>moving_toward\<close> has
  returned, \<open>drag\<close> is positive and these are \<open>ln\<close> and \<open>powr\<close>.
\<close>

definition animate_value ::
  "real \<Rightarrow> real \<Rightarrow> real \<Rightarrow> real \<Rightarrow> real \<Rightarrow> real \<Rightarrow> real \<Rightarrow> failure + real" where
  "animate_value value change_rate target acceleration acceleration_modifier drag delta_time =
     (case moving_toward value change_rate drag of
        Inl e \<Rightarrow> Inl e
      | Inr moving_twd \<Rightarrow>
          if moving_twd < target - 0.01 then
            (case np_div \<bar>change_rate\<bar> (acceleration_modifier + 1) of
               Inl e \<Rightarrow> Inl e
             | Inr base \<Rightarrow>
            (case py_div 1 acceleration_modifier of
               Inl e \<Rightarrow> Inl e
             | Inr inv_modifier \<Rightarrow>
            (case np_power base inv_modifier of
               Inl e \<Rightarrow> Inl e
             | Inr rt \<Rightarrow>
            (let progress = sgn change_rate * rt + delta_time * acceleration in
             case np_power \<bar>progress\<bar> acceleration_modifier of
               Inl e \<Rightarrow> Inl e
             | Inr pw \<Rightarrow>
            (let rate1 = sgn progress * (acceleration_modifier + 1) * pw in
             case moving_toward value rate1 drag of
               Inl e \<Rightarrow> Inl e
             | Inr twd1 \<Rightarrow>
            (let rate2 = (if twd1 > target then (value - target) * ln drag else rate1) in
             if value + rate2 * delta_time > target
             then np_div (target - value) delta_time
             else Inr rate2))))))
          else
            (let rate1 = (if target + change_rate > moving_twd \<and> moving_twd > target
                          then (value - target) * ln drag else change_rate)
             in Inr (rate1 * drag powr delta_time)))"




subsection \<open>The vector animator\<close>

text \<open>
  The class attributes \<open>default_acceleration\<close>, \<open>default_acceleration_modifier\<close> and
  \<open>default_drag\<close> are shared and mutable; \<open>tick\<close> reads them, so it takes them as an
  argument.
\<close>

record defaults =
  default_acceleration :: real
  default_acceleration_modifier :: real
  default_drag :: real

definition initial_defaults :: defaults where
  "initial_defaults =
     \<lparr>default_acceleration = 3000, default_acceleration_modifier = 13 / 10,
      default_drag = 1 / 10 ^ 7\<rparr>"

text \<open>
  The instance attributes; each field is the attribute of the same name with a leading
  underscore (\<open>keep_velocity\<close> has none).  The three tuning attributes are \<open>None\<close>
  until a setter stores a number.
\<close>

record animvec =
  "values" :: "real list"
  target :: "real list"
  change :: "real list"
  animate :: bool
  loose :: bool
  record_change :: bool
  keep_velocity :: bool
  acceleration :: "real option"
  acceleration_modifier :: "real option"
  drag :: "real option"

text \<open>\<open>len(self)\<close> is the length of the values.\<close>

definition len :: "animvec \<Rightarrow> nat" where
  "len s = length (values s)"

text \<open>The setters of the tuning attributes.\<close>

definition set_acceleration :: "real \<Rightarrow> animvec \<Rightarrow> animvec" where
  "set_acceleration v s = s\<lparr>acceleration := Some (if v > 0 then v else 0)\<rparr>"

definition set_acceleration_modifier :: "real \<Rightarrow> animvec \<Rightarrow> animvec" where
  "set_acceleration_modifier v s = s\<lparr>acceleration_modifier := Some (if v > 0 then v else 0)\<rparr>"

definition set_drag :: "real \<Rightarrow> animvec \<Rightarrow> animvec" where
  "set_drag v s = s\<lparr>drag := Some (if v > 0 then 10 powr (- v) else 1)\<rparr>"

text \<open>
  \<open>__init__\<close>, for a one-dimensional \<open>vector\<close> or, without one, a \<open>length\<close>.
\<close>

definition init ::
  "real list option \<Rightarrow> int \<Rightarrow> real option \<Rightarrow> real option \<Rightarrow> real option \<Rightarrow> failure + animvec" where
  "init vector length0 acceleration0 acceleration_modifier0 drag0 =
     (if vector = None \<and> length0 < 0 then Inl ValueError
      else
        let vs = (case vector of Some v \<Rightarrow> v | None \<Rightarrow> np_zeros (nat length0));
            s0 = \<lparr>values = vs, target = vs, change = np_zeros (length vs),
                  animate = True, loose = False, record_change = True,
                  keep_velocity = False, acceleration = None,
                  acceleration_modifier = None, drag = None\<rparr>;
            s1 = (case acceleration0 of None \<Rightarrow> s0 | Some a \<Rightarrow> set_acceleration a s0);
            s2 = (case acceleration_modifier0 of None \<Rightarrow> s1
                  | Some m \<Rightarrow> set_acceleration_modifier m s1);
            s3 = (case drag0 of None \<Rightarrow> s2 | Some d \<Rightarrow> set_drag d s2)
        in Inr s3)"

text \<open>The setter of \<open>animate\<close>.\<close>

definition set_animate :: "bool \<Rightarrow> animvec \<Rightarrow> animvec" where
  "set_animate v s =
     (let s1 = s\<lparr>animate := v\<rparr>
      in if \<not> v then s1\<lparr>change := np_zeros (len s1), target := values s1\<rparr> else s1)"

text \<open>
  \<open>x ** y\<close> on Python floats: a positive base is the real power; \<open>0.0 ** y\<close> is 1 for
  \<open>y = 0\<close>, 0 for positive \<open>y\<close> and raises for negative \<open>y\<close>; a negative base has a
  real value for an integral exponent.  A negative base with a fractional exponent
  yields a complex number: \<open>tick\<close> is the only caller that can get there, and its next
  statement takes \<open>math.log\<close> of the same negative base, so the ValueError of that
  statement is given here.  A power too large for a double raises OverflowError in
  Python; like every overflow it is outside the model.
\<close>

definition py_pow :: "real \<Rightarrow> real \<Rightarrow> failure + real" where
  "py_pow x y =
     (if 0 < x then Inr (x powr y)
      else if x = 0 then
        (if y = 0 then Inr 1 else if 0 < y then Inr 0 else Inl ZeroDivisionError)
      else if y = of_int \<lfloor>y\<rfloor> then Inr (x powi \<lfloor>y\<rfloor>)
      else Inl ValueError)"

text \<open>
  \<open>tick\<close>, loose branch: the change decays and the target is put where the motion
  would coast to.
\<close>

definition tick_loose :: "real \<Rightarrow> real \<Rightarrow> animvec \<Rightarrow> failure + animvec" where
  "tick_loose dr delta s =
     (case py_pow dr delta of
        Inl e \<Rightarrow> Inl e
      | Inr p \<Rightarrow>
     (let ch = map (\<lambda>c. c * p) (change s) in
      case py_log dr of
        Inl e \<Rightarrow> Inl e
      | Inr l \<Rightarrow>
     (case np_div_scalar ch l of
        Inl e \<Rightarrow> Inl e
      | Inr q \<Rightarrow>
     (case np_zip (-) (values s) q of
        Inl e \<Rightarrow> Inl e
      | Inr tg \<Rightarrow> Inr (s\<lparr>change := ch, target := tg\<rparr>)))))"

text \<open>
  \<open>tick\<close>, tethered branch: the component of the change along the difference vector
  is given to the scalar solver, with the value at 0 and the target at the distance;
  the new rate is laid along the difference vector.  \<open>10e-100\<close> is the literal of the
  source, ten times \<open>10 ^ -100\<close>.
\<close>

definition tick_tethered :: "real \<Rightarrow> real \<Rightarrow> real \<Rightarrow> real \<Rightarrow> animvec \<Rightarrow> failure + animvec" where
  "tick_tethered acc accm dr delta s =
     (case np_zip (-) (target s) (values s) of
        Inl e \<Rightarrow> Inl e
      | Inr difference_vector \<Rightarrow>
     (case dot difference_vector difference_vector of
        Inl e \<Rightarrow> Inl e
      | Inr dd \<Rightarrow>
     (let distance = (if sqrt dd = 0 then 10 / 10 ^ 100 else sqrt dd) in
      case dot (change s) difference_vector of
        Inl e \<Rightarrow> Inl e
      | Inr c_dot_d \<Rightarrow>
     (case dot difference_vector difference_vector of
        Inl e \<Rightarrow> Inl e
      | Inr d_dot_d \<Rightarrow>
     (case dot (change s) (change s) of
        Inl e \<Rightarrow> Inl e
      | Inr c_dot_c \<Rightarrow>
     (let abs_c = sqrt c_dot_c;
          num = c_dot_d * \<bar>c_dot_d\<bar>;
          den = d_dot_d * abs_c;
          rate = (if den \<noteq> 0 then num / den else 0)
      in case animate_value 0 rate distance acc accm dr delta of
        Inl e \<Rightarrow> Inl e
      | Inr rate' \<Rightarrow>
     (case np_div_scalar (map (\<lambda>d. rate' * d) difference_vector) distance of
        Inl e \<Rightarrow> Inl e
      | Inr ch \<Rightarrow> Inr (s\<lparr>change := ch\<rparr>))))))))"

text \<open>
  \<open>tick\<close>, instant mode.  The weights are computed as the source computes them:
  \<open>a = 1; b = 2; a = a / (a + b); b = b / (a + b)\<close>, the last with the new \<open>a\<close>.
\<close>

definition tick_instant :: "real \<Rightarrow> animvec \<Rightarrow> failure + animvec" where
  "tick_instant delta s =
     (if record_change s then
        (let a0 = 1; b0 = 2; a = a0 / (a0 + b0); b = b0 / (a + b0) in
         case np_zip (-) (target s) (values s) of
           Inl e \<Rightarrow> Inl e
         | Inr d \<Rightarrow>
        (case np_div_scalar d delta of
           Inl e \<Rightarrow> Inl e
         | Inr new_change \<Rightarrow>
        (case dot new_change new_change of
           Inl e \<Rightarrow> Inl e
         | Inr nn \<Rightarrow>
        (case dot (change s) (change s) of
           Inl e \<Rightarrow> Inl e
         | Inr cc \<Rightarrow>
            if nn > cc then Inr (s\<lparr>change := new_change, values := target s\<rparr>)
            else
              (case np_zip (+) (map (\<lambda>c. c * a) (change s)) (map (\<lambda>c. c * b) new_change) of
                 Inl e \<Rightarrow> Inl e
               | Inr ch \<Rightarrow> Inr (s\<lparr>change := ch, values := target s\<rparr>))))))
      else Inr (s\<lparr>change := np_zeros (len s), values := target s\<rparr>))"

text \<open>
  The tuning numbers \<open>tick\<close> works with: the stored one, or the default where
  nothing is stored.
\<close>

definition acceleration_in_use :: "defaults \<Rightarrow> animvec \<Rightarrow> real" where
  "acceleration_in_use D s =
     (case acceleration s of Some a \<Rightarrow> a | None \<Rightarrow> default_acceleration D)"

definition acceleration_modifier_in_use :: "defaults \<Rightarrow> animvec \<Rightarrow> real" where
  "acceleration_modifier_in_use D s =
     (case acceleration_modifier s of Some m \<Rightarrow> m | None \<Rightarrow> default_acceleration_modifier D)"

definition drag_in_use :: "defaults \<Rightarrow> animvec \<Rightarrow> real" where
  "drag_in_use D s = (case drag s of Some d \<Rightarrow> d | None \<Rightarrow> default_drag D)"

text \<open>
  \<open>tick(delta)\<close>.  After either animating branch the values move by the change
  times \<open>delta\<close>.
\<close>

definition tick :: "defaults \<Rightarrow> real \<Rightarrow> animvec \<Rightarrow> failure + animvec" where
  "tick D delta s =
     (let acc = acceleration_in_use D s;
          accm = acceleration_modifier_in_use D s;
          dr = drag_in_use D s
      in if animate s then
           (case (if loose s then tick_loose dr delta s
                  else tick_tethered acc accm dr delta s) of
              Inl e \<Rightarrow> Inl e
            | Inr s1 \<Rightarrow>
                (case np_zip (+) (values s1) (map (\<lambda>c. c * delta) (change s1)) of
                   Inl e \<Rightarrow> Inl e
                 | Inr vs \<Rightarrow> Inr (s1\<lparr>values := vs\<rparr>)))
         else tick_instant delta s)"

text \<open>\<open>jump(i)\<close>; the index is an integer or absent.\<close>

definition jump :: "int option \<Rightarrow> animvec \<Rightarrow> failure + animvec" where
  "jump i s =
     (case i of
        None \<Rightarrow> (let s1 = s\<lparr>values := target s\<rparr> in Inr (s1\<lparr>change := np_zeros (len s1)\<rparr>))
      | Some j \<Rightarrow>
          (case np_index (length (target s)) j of
             Inl e \<Rightarrow> Inl e
           | Inr kt \<Rightarrow>
          (case np_index (length (values s)) j of
             Inl e \<Rightarrow> Inl e
           | Inr kv \<Rightarrow>
          (case np_index (length (change s)) j of
             Inl e \<Rightarrow> Inl e
           | Inr kc \<Rightarrow>
              Inr (s\<lparr>values := (values s)[kv := target s ! kt],
                      change := (change s)[kc := 0]\<rparr>)))))"

text \<open>
  \<open>cap_change(value, i)\<close>.  Without an index, the components whose magnitude exceeds
  \<open>value\<close> are set to \<open>value\<close>.  With an index, the component is compared as it is,
  and the number stored is the index.
\<close>

definition cap_change :: "real \<Rightarrow> int option \<Rightarrow> animvec \<Rightarrow> failure + animvec" where
  "cap_change v i s =
     (case i of
        None \<Rightarrow> Inr (s\<lparr>change := map (\<lambda>c. if \<bar>c\<bar> > v then v else c) (change s)\<rparr>)
      | Some j \<Rightarrow>
          (case np_index (length (change s)) j of
             Inl e \<Rightarrow> Inl e
           | Inr k \<Rightarrow>
               if change s ! k > v then Inr (s\<lparr>change := (change s)[k := of_int j]\<rparr>)
               else Inr s))"

text \<open>\<open>get_axis_from(source, axis, source_axis)\<close>.\<close>

definition get_axis_from :: "animvec \<Rightarrow> int \<Rightarrow> int option \<Rightarrow> animvec \<Rightarrow> failure + animvec" where
  "get_axis_from source axis source_axis s =
     (let sa = (case source_axis of None \<Rightarrow> axis | Some a \<Rightarrow> a) in
      case np_index (length (change source)) sa of
        Inl e \<Rightarrow> Inl e
      | Inr jc \<Rightarrow>
     (case np_index (length (change s)) axis of
        Inl e \<Rightarrow> Inl e
      | Inr kc \<Rightarrow>
     (case np_index (length (values source)) sa of
        Inl e \<Rightarrow> Inl e
      | Inr jv \<Rightarrow>
     (case np_index (length (values s)) axis of
        Inl e \<Rightarrow> Inl e
      | Inr kv \<Rightarrow>
     (case np_index (length (target source)) sa of
        Inl e \<Rightarrow> Inl e
      | Inr jt \<Rightarrow>
     (case np_index (length (target s)) axis of
        Inl e \<Rightarrow> Inl e
      | Inr kt \<Rightarrow>
          Inr (s\<lparr>change := (change s)[kc := change source ! jc],
                  values := (values s)[kv := values source ! jv],
                  target := (target s)[kt := target source ! jt]\<rparr>)))))))"

text \<open>\<open>self[i] = value\<close>: indexed assignment writes the target.\<close>

definition setitem :: "int \<Rightarrow> real \<Rightarrow> animvec \<Rightarrow> failure + animvec" where
  "setitem i v s =
     (case np_index (length (target s)) i of
        Inl e \<Rightarrow> Inl e
      | Inr k \<Rightarrow> Inr (s\<lparr>target := (target s)[k := v]\<rparr>))"

text \<open>The three vectors all have length \<open>n\<close>.\<close>

definition lengths_agree :: "animvec \<Rightarrow> nat \<Rightarrow> bool" where
  "lengths_agree s n \<longleftrightarrow>
     length (values s) = n \<and> length (target s) = n \<and> length (change s) = n"

section \<open>Properties\<close>

subsection \<open>Auxiliary facts\<close>

lemma np_zip_same_length:
  "length xs = length ys \<Longrightarrow> np_zip f xs ys = Inr (map2 f xs ys)"
  by (simp add: np_zip_def)

lemma map2_minus_self: "map2 (-) xs xs = replicate (length xs) (0::real)"
  by (induction xs) simp_all

lemma map2_add_zero:
  "length xs = n \<Longrightarrow> map2 (+) xs (replicate n (0::real)) = xs"
  by (induction xs arbitrary: n) auto

lemma moving_toward_Inr:
  fixes drag :: real
  shows "0 < drag \<Longrightarrow> drag \<noteq> 1 \<Longrightarrow>
    moving_toward v rate drag = Inr (v - rate / ln drag)"
  by (simp add: moving_toward_def py_log_def np_div_def)

text \<open>
  With a stored drag other than 1, a positive modifier and a step that is not zero the
  solver returns a rate: no branch of it fails.
\<close>

lemma animate_value_returns:
  fixes "value" change_rate target acceleration acceleration_modifier drag delta_time :: real
  assumes "0 < drag" "drag \<noteq> 1" "0 < acceleration_modifier" "delta_time \<noteq> 0"
  shows "\<exists>r. animate_value value change_rate target acceleration acceleration_modifier
                drag delta_time = Inr r"
proof -
  have mt: "\<And>x. moving_toward value x drag = Inr (value - x / ln drag)"
    using assms by (simp add: moving_toward_Inr)
  have pw: "\<And>x. 0 \<le> x \<Longrightarrow> \<exists>p. np_power x (1 / acceleration_modifier) = Inr p"
    using assms(3) by (simp add: np_power_def)
  have pw2: "\<And>x. 0 \<le> x \<Longrightarrow> \<exists>p. np_power x acceleration_modifier = Inr p"
    using assms(3) by (simp add: np_power_def)
  obtain p where p: "np_power (\<bar>change_rate\<bar> / (acceleration_modifier + 1))
      (1 / acceleration_modifier) = Inr p"
    using pw [of "\<bar>change_rate\<bar> / (acceleration_modifier + 1)"] assms(3) by auto
  obtain q where q: "np_power \<bar>sgn change_rate * p + delta_time * acceleration\<bar>
      acceleration_modifier = Inr q"
    using pw2 [of "\<bar>sgn change_rate * p + delta_time * acceleration\<bar>"] by auto
  show ?thesis
    unfolding animate_value_def mt
    using assms(3,4) p q by (simp add: np_div_def py_div_def Let_def)
qed


lemma animate_value_settled:
  fixes drag :: real
  assumes "0 < drag" "drag < 1" "0 \<le> t" "t \<le> 1 / 100"
  shows "animate_value 0 0 t a m drag dt = Inr 0"
  using assms
  by (simp add: animate_value_def moving_toward_def py_log_def np_div_def)

lemma np_div_scalar_length:
  "np_div_scalar xs d = Inr ys \<Longrightarrow> length ys = length xs"
  by (auto simp: np_div_scalar_def split: if_splits)

lemma np_zip_length:
  "length xs = length ys \<Longrightarrow> np_zip f xs ys = Inr zs \<Longrightarrow> length zs = length xs"
  by (auto simp: np_zip_def)

lemma tick_loose_lengths:
  assumes "lengths_agree s n" "tick_loose dr delta s = Inr s1"
  shows "lengths_agree s1 n"
proof -
  from assms(2) obtain p l q tg where
    q: "np_div_scalar (map (\<lambda>c. c * p) (change s)) l = Inr q"
    and tg: "np_zip (-) (values s) q = Inr tg"
    and s1: "s1 = s\<lparr>change := map (\<lambda>c. c * p) (change s), target := tg\<rparr>"
    by (auto simp: tick_loose_def Let_def split: sum.splits)
  have lq: "length q = n"
    using np_div_scalar_length [OF q] assms(1) by (simp add: lengths_agree_def)
  have "length tg = n"
    using np_zip_length [OF _ tg] lq assms(1) by (simp add: lengths_agree_def)
  then show ?thesis
    using s1 assms(1) by (simp add: lengths_agree_def)
qed

lemma tick_tethered_lengths:
  assumes "lengths_agree s n" "tick_tethered acc accm dr delta s = Inr s1"
  shows "lengths_agree s1 n"
proof -
  from assms(2) obtain dv r dist ch where
    dv: "np_zip (-) (target s) (values s) = Inr dv"
    and ch: "np_div_scalar (map (\<lambda>d. r * d) dv) dist = Inr ch"
    and s1: "s1 = s\<lparr>change := ch\<rparr>"
    by (auto simp: tick_tethered_def Let_def split: sum.splits)
  have "length dv = n"
    using np_zip_length [OF _ dv] assms(1) by (simp add: lengths_agree_def)
  then have "length ch = n"
    using np_div_scalar_length [OF ch] by simp
  then show ?thesis
    using s1 assms(1) by (simp add: lengths_agree_def)
qed

text \<open>
  Instant mode with a step that is not zero, written out: the estimate replaces the
  change when its squared magnitude is the larger one, and is blended with it
  otherwise.  The weights are the ones the source arrives at, \<open>1 / 3\<close> and \<open>6 / 7\<close>.
\<close>

lemma tick_instant_result:
  assumes la: "lengths_agree s n" and delta: "delta \<noteq> 0"
  shows "tick_instant delta s =
    Inr (s\<lparr>change :=
            (if record_change s then
               (let e = map (\<lambda>x. x / delta) (map2 (-) (target s) (values s)) in
                if sum_list (map2 (*) e e) > sum_list (map2 (*) (change s) (change s)) then e
                else map2 (+) (map (\<lambda>c. c * (1 / 3)) (change s)) (map (\<lambda>c. c * (6 / 7)) e))
             else replicate n 0),
           values := target s\<rparr>)"
proof -
  have d: "np_zip (-) (target s) (values s) = Inr (map2 (-) (target s) (values s))"
    using la by (simp add: lengths_agree_def np_zip_same_length)
  let ?e = "map (\<lambda>x. x / delta) (map2 (-) (target s) (values s))"
  have e: "np_div_scalar (map2 (-) (target s) (values s)) delta = Inr ?e"
    using delta by (simp add: np_div_scalar_def)
  have ee: "dot ?e ?e = Inr (sum_list (map2 (*) ?e ?e))"
    by (simp add: dot_def)
  have cc: "dot (change s) (change s) = Inr (sum_list (map2 (*) (change s) (change s)))"
    by (simp add: dot_def)
  have w: "(2::real) / (1 / (1 + 2) + 2) = 6 / 7" "(1::real) / (1 + 2) = 1 / 3" by simp_all
  show ?thesis
  proof (cases "record_change s")
    case False
    then show ?thesis using la by (simp add: tick_instant_def np_zeros_def len_def lengths_agree_def)
  next
    case True
    show ?thesis
      unfolding tick_instant_def Let_def d w
      using True la
      by (simp only: e ee cc if_True sum.case) (simp add: Let_def np_zip_def lengths_agree_def)
  qed
qed

lemma tick_instant_lengths:
  assumes la: "lengths_agree s n" and ret: "tick_instant delta s = Inr s1"
  shows "lengths_agree s1 n"
proof (cases "record_change s")
  case False
  then show ?thesis
    using la ret by (auto simp: tick_instant_def np_zeros_def len_def lengths_agree_def)
next
  case True
  from ret True obtain d e ch where
    d: "np_zip (-) (target s) (values s) = Inr d"
    and e: "np_div_scalar d delta = Inr e"
    and ch: "ch = e \<or> np_zip (+) (map (\<lambda>c. c * (1 / (1 + 2))) (change s))
                (map (\<lambda>c. c * (2 / (1 / (1 + 2) + 2))) e) = Inr ch"
    and s1: "s1 = s\<lparr>change := ch, values := target s\<rparr>"
    by (auto simp: tick_instant_def Let_def split: sum.splits if_splits)
  have ld: "length d = n"
    using np_zip_length [OF _ d] la by (simp add: lengths_agree_def)
  then have le: "length e = n"
    using np_div_scalar_length [OF e] by simp
  have "length ch = n"
    using ch
  proof
    assume "ch = e" then show ?thesis using le by simp
  next
    assume z: "np_zip (+) (map (\<lambda>c. c * (1 / (1 + 2))) (change s))
                (map (\<lambda>c. c * (2 / (1 / (1 + 2) + 2))) e) = Inr ch"
    show ?thesis
      using np_zip_length [OF _ z] le la by (simp add: lengths_agree_def)
  qed
  then show ?thesis
    using s1 la by (simp add: lengths_agree_def)
qed

lemma tick_lengths:
  assumes la: "lengths_agree s n" and ret: "tick D delta s = Inr s'"
  shows "lengths_agree s' n"
proof (cases "animate s")
  case False
  then show ?thesis using la ret by (simp add: tick_def tick_instant_lengths)
next
  case True
  then obtain s1 vs where s1: "(if loose s then tick_loose (drag_in_use D s) delta s
        else tick_tethered (acceleration_in_use D s) (acceleration_modifier_in_use D s)
               (drag_in_use D s) delta s) = Inr s1"
    and vs: "np_zip (+) (values s1) (map (\<lambda>c. c * delta) (change s1)) = Inr vs"
    and s': "s' = s1\<lparr>values := vs\<rparr>"
    using ret by (auto simp: tick_def Let_def split: sum.splits)
  have l1: "lengths_agree s1 n"
  proof (cases "loose s")
    case True
    then show ?thesis using s1 la tick_loose_lengths by simp
  next
    case False
    then show ?thesis using s1 la tick_tethered_lengths by simp
  qed
  have "length vs = n"
    using np_zip_length [OF _ vs] l1 by (simp add: lengths_agree_def)
  then show ?thesis
    using s' l1 by (simp add: lengths_agree_def)
qed

lemma jump_lengths:
  "lengths_agree s n \<Longrightarrow> jump i s = Inr s' \<Longrightarrow> lengths_agree s' n"
  by (auto simp: jump_def lengths_agree_def Let_def np_zeros_def len_def
      split: option.splits sum.splits)

lemma cap_change_lengths:
  "lengths_agree s n \<Longrightarrow> cap_change v i s = Inr s' \<Longrightarrow> lengths_agree s' n"
  by (auto simp: cap_change_def lengths_agree_def split: option.splits sum.splits if_splits)

lemma get_axis_from_lengths:
  "lengths_agree s n \<Longrightarrow> get_axis_from source axis source_axis s = Inr s' \<Longrightarrow> lengths_agree s' n"
  by (auto simp: get_axis_from_def lengths_agree_def Let_def split: sum.splits)

lemma setitem_lengths:
  "lengths_agree s n \<Longrightarrow> setitem i v s = Inr s' \<Longrightarrow> lengths_agree s' n"
  by (auto simp: setitem_def lengths_agree_def split: sum.splits)

lemma set_animate_lengths:
  "lengths_agree s n \<Longrightarrow> lengths_agree (set_animate v s) n"
  by (auto simp: set_animate_def lengths_agree_def Let_def np_zeros_def len_def)

lemma init_lengths:
  "\<exists>s. init None (int n) a m d = Inr s \<and> lengths_agree s n"
  by (auto simp: init_def lengths_agree_def Let_def np_zeros_def set_acceleration_def
      set_acceleration_modifier_def set_drag_def split: option.splits)

lemma cap_change_all:
  assumes "0 \<le> v" "cap_change v None s = Inr s'"
  shows "length (change s') = length (change s)
    \<and> (\<forall>k < length (change s). \<bar>change s' ! k\<bar> \<le> v
          \<and> (\<bar>change s ! k\<bar> \<le> v \<longrightarrow> change s' ! k = change s ! k))"
  using assms by (auto simp: cap_change_def)







text \<open>Runs of the operations on a two-dimensional animator.\<close>

lemma loose_tick_run:
  "tick initial_defaults 1
     \<lparr>values = [1, 2], target = [3, 4], change = [0, 0], animate = True, loose = True,
      record_change = True, keep_velocity = False, acceleration = None,
      acceleration_modifier = None, drag = None\<rparr>
   = Inr \<lparr>values = [1, 2], target = [1, 2], change = [0, 0], animate = True, loose = True,
      record_change = True, keep_velocity = False, acceleration = None,
      acceleration_modifier = None, drag = None\<rparr>"
  by (simp add: tick_def tick_loose_def py_pow_def py_log_def np_div_scalar_def np_zip_def
      drag_in_use_def initial_defaults_def Let_def)

lemma auxiliary_runs:
  "jump (Some 1)
     \<lparr>values = [1, 2], target = [3, 4], change = [0, 0], animate = True, loose = True,
      record_change = True, keep_velocity = False, acceleration = None,
      acceleration_modifier = None, drag = None\<rparr>
   = Inr \<lparr>values = [1, 4], target = [3, 4], change = [0, 0], animate = True, loose = True,
      record_change = True, keep_velocity = False, acceleration = None,
      acceleration_modifier = None, drag = None\<rparr>"
  "cap_change 1 None
     \<lparr>values = [1, 2], target = [3, 4], change = [0, 0], animate = True, loose = True,
      record_change = True, keep_velocity = False, acceleration = None,
      acceleration_modifier = None, drag = None\<rparr>
   = Inr \<lparr>values = [1, 2], target = [3, 4], change = [0, 0], animate = True, loose = True,
      record_change = True, keep_velocity = False, acceleration = None,
      acceleration_modifier = None, drag = None\<rparr>"
  "get_axis_from
     \<lparr>values = [7], target = [8], change = [9], animate = True, loose = False,
      record_change = True, keep_velocity = False, acceleration = None,
      acceleration_modifier = None, drag = None\<rparr> 1 (Some 0)
     \<lparr>values = [1, 2], target = [3, 4], change = [0, 0], animate = True, loose = True,
      record_change = True, keep_velocity = False, acceleration = None,
      acceleration_modifier = None, drag = None\<rparr>
   = Inr \<lparr>values = [1, 7], target = [3, 8], change = [0, 9], animate = True, loose = True,
      record_change = True, keep_velocity = False, acceleration = None,
      acceleration_modifier = None, drag = None\<rparr>"
  "setitem (- 1) 9
     \<lparr>values = [1, 2], target = [3, 4], change = [0, 0], animate = True, loose = True,
      record_change = True, keep_velocity = False, acceleration = None,
      acceleration_modifier = None, drag = None\<rparr>
   = Inr \<lparr>values = [1, 2], target = [3, 9], change = [0, 0], animate = True, loose = True,
      record_change = True, keep_velocity = False, acceleration = None,
      acceleration_modifier = None, drag = None\<rparr>"
  by (simp_all add: jump_def cap_change_def get_axis_from_def setitem_def np_index_def)

subsection \<open>The scalar rate solver\<close>




text \<open>
  C3, as the source has it.  In the coasting branch (the projection is not below
  \<open>target - 0.01\<close>) with a stored drag strictly between 0 and 1, the rate is first
  replaced by the coast-to-target rate \<open>(value - target) * ln drag\<close> when the
  projection lies strictly between \<open>target\<close> and \<open>target + change_rate\<close>, and
  then, in both cases, multiplied by \<open>drag ** delta_time\<close>: the decay is applied to the
  snapped rate as well.
\<close>

theorem coast_rate:
  fixes "value" change_rate target acceleration acceleration_modifier drag delta_time :: real
  assumes dr: "0 < drag" "drag < 1"
    and phase: "\<not> value - change_rate / ln drag < target - 0.01"
  shows "animate_value value change_rate target acceleration acceleration_modifier
           drag delta_time =
         Inr ((if target < value - change_rate / ln drag
                  \<and> value - change_rate / ln drag < target + change_rate
               then (value - target) * ln drag else change_rate) * drag powr delta_time)"
  using dr phase
  by (simp add: animate_value_def moving_toward_Inr Let_def)

theorem coast_rate_witness:
  "(0::real) < exp (- 1) \<and> exp (- 1) < (1::real)
   \<and> \<not> 0 - 2 / ln (exp (- 1)) < (1::real) - 0.01
   \<and> animate_value 0 2 1 3000 (13 / 10) (exp (- 1)) 1 = Inr (exp (- 1))"
  using coast_rate [of "exp (- 1)" 0 2 1 3000 "13 / 10" 1]
  by simp

text \<open>
  The claim as the specification words it, that the rate returned in the band is
  exactly \<open>(value - target) * ln drag\<close>, fails: with the value at 0, the target at 1,
  the rate 2, the drag \<open>exp (- 1)\<close> and a step of 1 the projection is 2, between 1 and
  \<open>1 + 2\<close>, the coast-to-target rate is 1, and the rate returned is \<open>exp (- 1)\<close>.
\<close>

theorem coast_snap_counterexample:
  "moving_toward 0 2 (exp (- 1)) = Inr 2
   \<and> \<not> (2::real) < 1 - 0.01 \<and> (1::real) < 2 \<and> (2::real) < 1 + 2
   \<and> animate_value 0 2 1 3000 (13 / 10) (exp (- 1)) 1 \<noteq> Inr ((0 - 1) * ln (exp (- 1)))"
  by (simp add: animate_value_def moving_toward_def py_log_def np_div_def)

text \<open>
  C2 asks that \<open>_animate_value\<close> never raises, also for the modifier 0 that the
  setter stores for a non-positive input.  It does raise there.  An animator built with
  \<open>acceleration_modifier = 0\<close> and given the target 1 calls the solver, in its first
  \<open>tick\<close>, with the rate 0 and the distance 1; the approach branch is taken and
  \<open>1 / acceleration_modifier\<close> divides the Python integer 1 by the stored 0.
\<close>

theorem zero_modifier_raises:
  "init None 1 None (Some 0) None
     = Inr \<lparr>values = [0], target = [0], change = [0], animate = True, loose = False,
       record_change = True, keep_velocity = False, acceleration = None,
       acceleration_modifier = Some 0, drag = None\<rparr>
   \<and> setitem 0 1 \<lparr>values = [0], target = [0], change = [0], animate = True, loose = False,
       record_change = True, keep_velocity = False, acceleration = None,
       acceleration_modifier = Some 0, drag = None\<rparr>
     = Inr \<lparr>values = [0], target = [1], change = [0], animate = True, loose = False,
       record_change = True, keep_velocity = False, acceleration = None,
       acceleration_modifier = Some 0, drag = None\<rparr>
   \<and> tick initial_defaults (1 / 60)
       \<lparr>values = [0], target = [1], change = [0], animate = True, loose = False,
       record_change = True, keep_velocity = False, acceleration = None,
       acceleration_modifier = Some 0, drag = None\<rparr> = Inl ZeroDivisionError
   \<and> animate_value 0 0 1 3000 0 (1 / 10 ^ 7) (1 / 60) = Inl ZeroDivisionError"
  by (simp add: init_def np_zeros_def set_acceleration_modifier_def setitem_def np_index_def
      tick_def tick_tethered_def np_zip_def dot_def Let_def
      acceleration_in_use_def acceleration_modifier_in_use_def drag_in_use_def
      initial_defaults_def
      animate_value_def moving_toward_def py_log_def np_div_def py_div_def)

subsection \<open>The vector animator\<close>

text \<open>
  C10.  A settled animator is a fixed point of the tethered \<open>tick\<close>: with \<open>animate\<close>
  true, \<open>loose\<close> false, the values equal to the target, a zero change, a positive
  \<open>delta\<close> and a drag in use strictly between 0 and 1, \<open>tick\<close> returns and leaves the
  whole state as it was.
\<close>

theorem settled_is_fixed_point:
  assumes "animate s" "\<not> loose s" "values s = target s"
    and "change s = replicate (length (values s)) 0"
    and "0 < delta" "0 < drag_in_use D s" "drag_in_use D s < 1"
  shows "tick D delta s = Inr s"
proof -
  let ?n = "length (values s)"
  have ch: "change s = replicate ?n 0" by fact
  have d: "np_zip (-) (target s) (values s) = Inr (replicate ?n 0)"
    using assms(3) by (simp add: np_zip_same_length map2_minus_self)
  have av: "animate_value 0 0 (10 / 10 ^ 100) (acceleration_in_use D s)
       (acceleration_modifier_in_use D s) (drag_in_use D s) delta = Inr 0"
    using assms(6,7) by (intro animate_value_settled) simp_all
  have dd: "dot (replicate ?n 0) (replicate ?n 0) = Inr 0"
    by (simp add: dot_def sum_list_replicate)
  have cd: "dot (change s) (replicate ?n 0) = Inr 0"
    by (subst ch) (rule dd)
  have cc: "dot (change s) (change s) = Inr 0"
    by (subst ch, subst ch) (rule dd)
  have fin: "s\<lparr>change := replicate ?n 0\<rparr> = s"
    by (subst ch [symmetric]) simp
  have t: "tick_tethered (acceleration_in_use D s) (acceleration_modifier_in_use D s)
       (drag_in_use D s) delta s = Inr s"
    unfolding tick_tethered_def d
    using av by (simp add: Let_def dd cd cc np_div_scalar_def fin)
  show ?thesis
    unfolding tick_def using assms(1,2) t ch
    by (simp add: np_zip_same_length map2_add_zero)
qed

theorem settled_is_fixed_point_witness:
  "tick initial_defaults (1 / 60)
     \<lparr>values = [3, 4], target = [3, 4], change = [0, 0], animate = True, loose = False,
      record_change = True, keep_velocity = False, acceleration = None,
      acceleration_modifier = None, drag = None\<rparr>
   = Inr \<lparr>values = [3, 4], target = [3, 4], change = [0, 0], animate = True, loose = False,
      record_change = True, keep_velocity = False, acceleration = None,
      acceleration_modifier = None, drag = None\<rparr>"
  using settled_is_fixed_point [of "\<lparr>values = [3, 4], target = [3, 4], change = [0, 0],
      animate = True, loose = False,
      record_change = True, keep_velocity = False, acceleration = None,
      acceleration_modifier = None, drag = None\<rparr>" "1 / 60" initial_defaults]
  by (simp add: drag_in_use_def initial_defaults_def)

text \<open>
  C7.  Assigning False to \<open>animate\<close> at once sets \<open>change\<close> to the zero vector and
  \<open>target\<close> to the current values, which stay as they are; assigning True leaves the
  three vectors alone.  No call of \<open>tick\<close> is involved.
\<close>

theorem set_animate_effect:
  "change (set_animate False s) = replicate (length (values s)) 0
   \<and> target (set_animate False s) = values s
   \<and> values (set_animate False s) = values s
   \<and> animate (set_animate False s) = False
   \<and> values (set_animate True s) = values s
   \<and> target (set_animate True s) = target s
   \<and> change (set_animate True s) = change s"
  by (simp add: set_animate_def len_def np_zeros_def)

text \<open>
  C8.  With \<open>animate\<close> false, a \<open>tick\<close> with a step that is not zero returns with
  the values equal to the target it found, which it leaves in place, and a second
  \<open>tick\<close> with the same step returns with the same values and the same target;
  \<open>record_change\<close> may be either way.  The three vectors have one length, as they
  have in every animator.
\<close>

theorem instant_tick_idempotent:
  assumes na: "\<not> animate s" and delta: "delta \<noteq> 0" and la: "lengths_agree s n"
  shows "\<exists>s'. tick D delta s = Inr s' \<and> values s' = target s \<and> target s' = target s
           \<and> (\<exists>s''. tick D delta s' = Inr s'' \<and> values s'' = values s'
                  \<and> target s'' = target s)"
proof -
  obtain s' where s': "tick_instant delta s = Inr s'"
    and v: "values s' = target s" and t: "target s' = target s" and a: "animate s' = animate s"
    using tick_instant_result [OF la delta] by simp
  have la': "lengths_agree s' n"
    using tick_instant_lengths [OF la s'] .
  obtain s'' where s'': "tick_instant delta s' = Inr s''" and v': "values s'' = target s'"
    and t': "target s'' = target s'"
    using tick_instant_result [OF la' delta] by simp
  have "tick D delta s = Inr s'" using na s' by (simp add: tick_def)
  moreover have "tick D delta s' = Inr s''" using na a s'' by (simp add: tick_def)
  ultimately show ?thesis using v t v' t' by simp
qed

theorem instant_tick_idempotent_witness:
  "\<exists>s'. tick initial_defaults 2
      \<lparr>values = [1, 2], target = [3, 4], change = [0, 0], animate = False, loose = False,
       record_change = True, keep_velocity = False, acceleration = None,
       acceleration_modifier = None, drag = None\<rparr> = Inr s'
     \<and> values s' = [3, 4] \<and> target s' = [3, 4]
     \<and> (\<exists>s''. tick initial_defaults 2 s' = Inr s'' \<and> values s'' = values s'
            \<and> target s'' = [3, 4])"
  using instant_tick_idempotent [of "\<lparr>values = [1, 2], target = [3, 4], change = [0, 0],
       animate = False, loose = False,
       record_change = True, keep_velocity = False, acceleration = None,
       acceleration_modifier = None, drag = None\<rparr>" 2 2 initial_defaults]
  by (simp add: lengths_agree_def)

text \<open>
  C4 gives the blend as a third of the old change plus two thirds of the estimate.  The
  source normalises the weights 1 and 2 one after the other, \<open>a = a / (a + b)\<close> and
  then \<open>b = b / (a + b)\<close> with the \<open>a\<close> just overwritten, so the estimate is weighted
  by \<open>2 / (1 / 3 + 2) = 6 / 7\<close>.  After an instant jump has left the change 7, a
  second jump by 1 in a step of 1 blends to \<open>7 / 3 + 6 / 7 = 67 / 21\<close>, not to 3.
\<close>

theorem blend_weights_run:
  "tick initial_defaults 1
      \<lparr>values = [7], target = [8], change = [7], animate = False, loose = False,
       record_change = True, keep_velocity = False, acceleration = None,
       acceleration_modifier = None, drag = None\<rparr>
   = Inr \<lparr>values = [8], target = [8], change = [67 / 21], animate = False, loose = False,
       record_change = True, keep_velocity = False, acceleration = None,
       acceleration_modifier = None, drag = None\<rparr>
   \<and> (67 / 21 :: real) \<noteq> 7 * (1 / 3) + (8 - 7) / 1 * (2 / 3)"
  by (simp add: tick_def tick_instant_def np_zip_def np_div_scalar_def dot_def Let_def)

text \<open>
  C5 asks that \<open>cap_change\<close> leaves no component of the change above the limit in
  magnitude.  Without an index that is what happens (\<open>cap_change_all\<close>).  With an
  index the component is compared without its sign and the index is stored in place of
  the limit: a change of \<open>- 5\<close> capped at 3 on axis 0 stays \<open>- 5\<close>, and a change
  of 10 capped at 3 on axis 5 becomes 5.
\<close>

theorem cap_change_axis_run:
  "cap_change 3 (Some 0)
      \<lparr>values = [0], target = [0], change = [- 5], animate = True, loose = False,
       record_change = True, keep_velocity = False, acceleration = None,
       acceleration_modifier = None, drag = None\<rparr>
   = Inr \<lparr>values = [0], target = [0], change = [- 5], animate = True, loose = False,
       record_change = True, keep_velocity = False, acceleration = None,
       acceleration_modifier = None, drag = None\<rparr>
   \<and> cap_change 3 (Some 5)
      \<lparr>values = [0, 0, 0, 0, 0, 0], target = [0, 0, 0, 0, 0, 0], change = [0, 0, 0, 0, 0, 10],
       animate = True, loose = False,
       record_change = True, keep_velocity = False, acceleration = None,
       acceleration_modifier = None, drag = None\<rparr>
   = Inr \<lparr>values = [0, 0, 0, 0, 0, 0], target = [0, 0, 0, 0, 0, 0], change = [0, 0, 0, 0, 0, 5],
       animate = True, loose = False,
       record_change = True, keep_velocity = False, acceleration = None,
       acceleration_modifier = None, drag = None\<rparr>"
  by (simp add: cap_change_def np_index_def)

text \<open>
  C6 asks that a loose \<open>tick\<close> with a stored drag of exactly 1 be an instantaneous
  stop, with no division by \<open>ln 1\<close>.  The source has no case for that drag, although
  1 is what the drag setter itself stores for an input that is not positive.  An
  animator of length 1 built with \<open>drag = 0\<close> and set loose multiplies its change by
  \<open>1 ** delta\<close> and divides it by \<open>math.log(1)\<close>, which is zero: numpy makes the
  target nan.  With a change of 1 the target becomes \<open>-inf\<close> and the change stays 1.
\<close>

theorem loose_unit_drag_run:
  "init None 1 None None (Some 0)
     = Inr \<lparr>values = [0], target = [0], change = [0], animate = True, loose = False,
       record_change = True, keep_velocity = False, acceleration = None,
       acceleration_modifier = None, drag = Some 1\<rparr>
   \<and> tick initial_defaults 1
      \<lparr>values = [0], target = [0], change = [0], animate = True, loose = True,
       record_change = True, keep_velocity = False, acceleration = None,
       acceleration_modifier = None, drag = Some 1\<rparr> = Inl NonFinite
   \<and> tick initial_defaults 1
      \<lparr>values = [0], target = [0], change = [1], animate = True, loose = True,
       record_change = True, keep_velocity = False, acceleration = None,
       acceleration_modifier = None, drag = Some 1\<rparr> = Inl NonFinite"
  by (simp add: init_def np_zeros_def set_drag_def Let_def
      tick_def tick_loose_def py_pow_def py_log_def np_div_scalar_def drag_in_use_def)

text \<open>
  C9.  The three vectors of an animator made with a length \<open>n\<close> all have length
  \<open>n\<close>, and every operation that returns keeps it so: \<open>tick\<close> in each of its
  branches, \<open>jump\<close> and \<open>cap_change\<close> with or without an index,
  \<open>get_axis_from\<close>, indexed assignment and the setter of \<open>animate\<close>.
\<close>

theorem lengths_invariant:
  assumes la: "lengths_agree s n"
  shows "(\<exists>s0. init None (int n) a m d = Inr s0 \<and> lengths_agree s0 n)
    \<and> (tick D delta s = Inr s1 \<longrightarrow> lengths_agree s1 n)
    \<and> (jump i s = Inr s2 \<longrightarrow> lengths_agree s2 n)
    \<and> (cap_change v j s = Inr s3 \<longrightarrow> lengths_agree s3 n)
    \<and> (get_axis_from source axis source_axis s = Inr s4 \<longrightarrow> lengths_agree s4 n)
    \<and> (setitem k x s = Inr s5 \<longrightarrow> lengths_agree s5 n)
    \<and> lengths_agree (set_animate b s) n"
  using la init_lengths [of n a m d] tick_lengths [of s n D delta s1] jump_lengths [of s n i s2]
    cap_change_lengths [of s n v j s3]
    get_axis_from_lengths [of s n source axis source_axis s4]
    setitem_lengths [of s n k x s5] set_animate_lengths [of s n b]
  by blast

theorem lengths_invariant_witness:
  "lengths_agree
     \<lparr>values = [1, 2], target = [3, 4], change = [0, 0], animate = True, loose = True,
      record_change = True, keep_velocity = False, acceleration = None,
      acceleration_modifier = None, drag = None\<rparr> 2
   \<and> (\<exists>s0. init None (int 2) None None None = Inr s0 \<and> lengths_agree s0 2)
   \<and> tick initial_defaults 1
     \<lparr>values = [1, 2], target = [3, 4], change = [0, 0], animate = True, loose = True,
      record_change = True, keep_velocity = False, acceleration = None,
      acceleration_modifier = None, drag = None\<rparr>
     = Inr \<lparr>values = [1, 2], target = [1, 2], change = [0, 0], animate = True, loose = True,
      record_change = True, keep_velocity = False, acceleration = None,
      acceleration_modifier = None, drag = None\<rparr>
   \<and> lengths_agree
     \<lparr>values = [1, 2], target = [1, 2], change = [0, 0], animate = True, loose = True,
      record_change = True, keep_velocity = False, acceleration = None,
      acceleration_modifier = None, drag = None\<rparr> 2
   \<and> jump (Some 1)
     \<lparr>values = [1, 2], target = [3, 4], change = [0, 0], animate = True, loose = True,
      record_change = True, keep_velocity = False, acceleration = None,
      acceleration_modifier = None, drag = None\<rparr>
     = Inr \<lparr>values = [1, 4], target = [3, 4], change = [0, 0], animate = True, loose = True,
      record_change = True, keep_velocity = False, acceleration = None,
      acceleration_modifier = None, drag = None\<rparr>
   \<and> lengths_agree
     \<lparr>values = [1, 4], target = [3, 4], change = [0, 0], animate = True, loose = True,
      record_change = True, keep_velocity = False, acceleration = None,
      acceleration_modifier = None, drag = None\<rparr> 2
   \<and> cap_change 1 None
     \<lparr>values = [1, 2], target = [3, 4], change = [0, 0], animate = True, loose = True,
      record_change = True, keep_velocity = False, acceleration = None,
      acceleration_modifier = None, drag = None\<rparr>
     = Inr \<lparr>values = [1, 2], target = [3, 4], change = [0, 0], animate = True, loose = True,
      record_change = True, keep_velocity = False, acceleration = None,
      acceleration_modifier = None, drag = None\<rparr>
   \<and> get_axis_from
     \<lparr>values = [7], target = [8], change = [9], animate = True, loose = False,
      record_change = True, keep_velocity = False, acceleration = None,
      acceleration_modifier = None, drag = None\<rparr> 1 (Some 0)
     \<lparr>values = [1, 2], target = [3, 4], change = [0, 0], animate = True, loose = True,
      record_change = True, keep_velocity = False, acceleration = None,
      acceleration_modifier = None, drag = None\<rparr>
     = Inr \<lparr>values = [1, 7], target = [3, 8], change = [0, 9], animate = True, loose = True,
      record_change = True, keep_velocity = False, acceleration = None,
      acceleration_modifier = None, drag = None\<rparr>
   \<and> lengths_agree
     \<lparr>values = [1, 7], target = [3, 8], change = [0, 9], animate = True, loose = True,
      record_change = True, keep_velocity = False, acceleration = None,
      acceleration_modifier = None, drag = None\<rparr> 2
   \<and> setitem (- 1) 9
     \<lparr>values = [1, 2], target = [3, 4], change = [0, 0], animate = True, loose = True,
      record_change = True, keep_velocity = False, acceleration = None,
      acceleration_modifier = None, drag = None\<rparr>
     = Inr \<lparr>values = [1, 2], target = [3, 9], change = [0, 0], animate = True, loose = True,
      record_change = True, keep_velocity = False, acceleration = None,
      acceleration_modifier = None, drag = None\<rparr>
   \<and> lengths_agree
     \<lparr>values = [1, 2], target = [3, 9], change = [0, 0], animate = True, loose = True,
      record_change = True, keep_velocity = False, acceleration = None,
      acceleration_modifier = None, drag = None\<rparr> 2
   \<and> lengths_agree (set_animate False
     \<lparr>values = [1, 2], target = [3, 4], change = [0, 0], animate = True, loose = True,
      record_change = True, keep_velocity = False, acceleration = None,
      acceleration_modifier = None, drag = None\<rparr>) 2"
proof -
  have la: "lengths_agree
     \<lparr>values = [1, 2], target = [3, 4], change = [0, 0], animate = True, loose = True,
      record_change = True, keep_velocity = False, acceleration = None,
      acceleration_modifier = None, drag = None\<rparr> 2"
    by (simp add: lengths_agree_def)
  show ?thesis
    using la loose_tick_run auxiliary_runs
      lengths_invariant [OF la, where a = None and m = None and d = None
        and D = initial_defaults and delta = 1
        and ?s1.0 = "\<lparr>values = [1, 2], target = [1, 2], change = [0, 0], animate = True, loose = True,
      record_change = True, keep_velocity = False, acceleration = None,
      acceleration_modifier = None, drag = None\<rparr>"
        and i = "Some 1"
        and ?s2.0 = "\<lparr>values = [1, 4], target = [3, 4], change = [0, 0], animate = True, loose = True,
      record_change = True, keep_velocity = False, acceleration = None,
      acceleration_modifier = None, drag = None\<rparr>"
        and v = 1 and j = None
        and ?s3.0 = "\<lparr>values = [1, 2], target = [3, 4], change = [0, 0], animate = True, loose = True,
      record_change = True, keep_velocity = False, acceleration = None,
      acceleration_modifier = None, drag = None\<rparr>"
        and source = "\<lparr>values = [7], target = [8], change = [9], animate = True, loose = False,
      record_change = True, keep_velocity = False, acceleration = None,
      acceleration_modifier = None, drag = None\<rparr>"
        and axis = 1 and source_axis = "Some 0"
        and ?s4.0 = "\<lparr>values = [1, 7], target = [3, 8], change = [0, 9], animate = True, loose = True,
      record_change = True, keep_velocity = False, acceleration = None,
      acceleration_modifier = None, drag = None\<rparr>"
        and k = "- 1" and x = 9
        and ?s5.0 = "\<lparr>values = [1, 2], target = [3, 9], change = [0, 0], animate = True, loose = True,
      record_change = True, keep_velocity = False, acceleration = None,
      acceleration_modifier = None, drag = None\<rparr>"
        and b = False]
    by simp
qed

end
